theory Spec2Isabelle
  imports Main "HOL-Library.Word"
begin

section \<open>The sparse-matrix engine, as \<^verbatim>\<open>rg_matrix.c\<close> uses it\<close>

text \<open>
  Modelled from the spec: the types of the engine's interface (the GraphBLAS headers are
  not among the sources). \<^verbatim>\<open>GrB_Index\<close> is an unsigned 64-bit integer;
  \<^verbatim>\<open>GrB_Info\<close> is the status code of every engine call, of which only the codes the
  delta matrix can meet are listed: success, the valid absent result of an extraction,
  an index out of range, and allocation failure.
\<close>

type_synonym GrB_Index = "64 word"

datatype GrB_Info = GrB_SUCCESS | GrB_NO_VALUE | GrB_INVALID_INDEX | GrB_OUT_OF_MEMORY

text \<open>
  Modelled from the spec: the value type of a matrix. A stored scalar is either a boolean
  or an unsigned 64-bit integer; extraction casts the stored scalar to the type of the
  output argument, as C does.
\<close>

datatype scalar = BOOL bool | UINT64 "64 word"

fun cast_BOOL :: "scalar \<Rightarrow> bool" where
  "cast_BOOL (BOOL b) = b"
| "cast_BOOL (UINT64 w) = (w \<noteq> 0)"

fun cast_UINT64 :: "scalar \<Rightarrow> 64 word" where
  "cast_UINT64 (BOOL b) = (if b then 1 else 0)"
| "cast_UINT64 (UINT64 w) = w"

text \<open>
  Modelled from the spec: an engine matrix (\<^verbatim>\<open>GrB_Matrix\<close>) has its two dimensions and
  a sparse set of entries. The engine counts the entries of a matrix in signed 64-bit
  integers (\<^verbatim>\<open>int64_t anz\<close>, \<^verbatim>\<open>int64_t bnz\<close> in \<^verbatim>\<open>GB_binop__le_uint16.c\<close>), so an
  engine matrix holds fewer than \<open>2 ^ 63\<close> entries; the type has no other matrices.
\<close>

typedef GrB_Matrix =
  "{(r :: GrB_Index, c :: GrB_Index, m :: GrB_Index \<times> GrB_Index \<rightharpoonup> scalar).
      card (dom m) < 2 ^ 63}"
  by (rule exI [of _ "(0, 0, Map.empty)"]) simp

definition nrows :: "GrB_Matrix \<Rightarrow> GrB_Index" where
  "nrows A = fst (Rep_GrB_Matrix A)"

definition ncols :: "GrB_Matrix \<Rightarrow> GrB_Index" where
  "ncols A = fst (snd (Rep_GrB_Matrix A))"

definition entries :: "GrB_Matrix \<Rightarrow> GrB_Index \<times> GrB_Index \<rightharpoonup> scalar" where
  "entries A = snd (snd (Rep_GrB_Matrix A))"

text \<open>
  The engine matrix with the given dimensions and entries; it is used on entry maps with
  fewer than \<open>2 ^ 63\<close> entries only.
\<close>

definition GrB_Matrix_of ::
  "GrB_Index \<Rightarrow> GrB_Index \<Rightarrow> (GrB_Index \<times> GrB_Index \<rightharpoonup> scalar) \<Rightarrow> GrB_Matrix" where
  "GrB_Matrix_of r c m = Abs_GrB_Matrix (r, c, m)"

text \<open>The mathematical number of stored entries of an engine matrix.\<close>

definition count :: "GrB_Matrix \<Rightarrow> nat" where
  "count A = card (dom (entries A))"

text \<open>
  Modelled from the spec: the engine's \<^verbatim>\<open>countEntries() -> integer\<close>
  (\<^verbatim>\<open>GrB_Matrix_nvals\<close>, whose source is not part of \<^verbatim>\<open>rg_matrix.c\<close>). The count is
  delivered in a \<^verbatim>\<open>GrB_Index\<close>, where it always fits; the first argument is the old
  content of the output cell, the result is the status and the new content.
\<close>

definition GrB_Matrix_nvals :: "GrB_Index \<Rightarrow> GrB_Matrix \<Rightarrow> GrB_Info \<times> GrB_Index" where
  "GrB_Matrix_nvals n A = (GrB_SUCCESS, word_of_nat (count A))"

text \<open>
  Modelled from the spec: the engine's \<^verbatim>\<open>resize(rows, cols)\<close> (\<^verbatim>\<open>GrB_Matrix_resize\<close>).
  A resize allocates, and the allocation can fail. Whether it does is not decided by
  \<^verbatim>\<open>rg_matrix.c\<close>: \<open>alloc A r c\<close> is the environment's answer for resizing \<open>A\<close> to
  \<open>r\<close> rows and \<open>c\<close> columns. When the allocation fails the engine reports
  \<^verbatim>\<open>GrB_OUT_OF_MEMORY\<close> and the matrix is as before. When it succeeds the matrix is
  \<open>resized A r c\<close>: it has the requested dimensions whatever the old ones were, entries
  that no longer fit are dropped, all others stay.
\<close>

definition resized :: "GrB_Matrix \<Rightarrow> GrB_Index \<Rightarrow> GrB_Index \<Rightarrow> GrB_Matrix" where
  "resized A nrows_new ncols_new =
     GrB_Matrix_of nrows_new ncols_new
       (\<lambda>(i, j). if i < nrows_new \<and> j < ncols_new then entries A (i, j) else None)"

definition GrB_Matrix_resize ::
  "(GrB_Matrix \<Rightarrow> GrB_Index \<Rightarrow> GrB_Index \<Rightarrow> bool)
     \<Rightarrow> GrB_Matrix \<Rightarrow> GrB_Index \<Rightarrow> GrB_Index \<Rightarrow> GrB_Info \<times> GrB_Matrix" where
  "GrB_Matrix_resize alloc A nrows_new ncols_new =
     (if alloc A nrows_new ncols_new
      then (GrB_SUCCESS, resized A nrows_new ncols_new)
      else (GrB_OUT_OF_MEMORY, A))"

text \<open>
  Modelled from the spec: the engine's \<^verbatim>\<open>extractElement(i, j) -> Optional<Value>\<close>
  (\<^verbatim>\<open>GrB_Matrix_extractElement\<close>, selected by the type of the output pointer). The
  output cell is written only when the entry is present.
\<close>

definition GrB_Matrix_extractElement_BOOL ::
  "bool \<Rightarrow> GrB_Matrix \<Rightarrow> GrB_Index \<Rightarrow> GrB_Index \<Rightarrow> GrB_Info \<times> bool" where
  "GrB_Matrix_extractElement_BOOL x A i j =
     (if nrows A \<le> i \<or> ncols A \<le> j then (GrB_INVALID_INDEX, x)
      else case entries A (i, j) of
             None \<Rightarrow> (GrB_NO_VALUE, x)
           | Some v \<Rightarrow> (GrB_SUCCESS, cast_BOOL v))"

definition GrB_Matrix_extractElement_UINT64 ::
  "64 word \<Rightarrow> GrB_Matrix \<Rightarrow> GrB_Index \<Rightarrow> GrB_Index \<Rightarrow> GrB_Info \<times> 64 word" where
  "GrB_Matrix_extractElement_UINT64 x A i j =
     (if nrows A \<le> i \<or> ncols A \<le> j then (GrB_INVALID_INDEX, x)
      else case entries A (i, j) of
             None \<Rightarrow> (GrB_NO_VALUE, x)
           | Some v \<Rightarrow> (GrB_SUCCESS, cast_UINT64 v))"

section \<open>The delta matrix\<close>

text \<open>
  Modelled from the spec: \<^verbatim>\<open>struct _RG_Matrix\<close> (\<^verbatim>\<open>rg_matrix.h\<close> is not among the
  sources), with the field names \<^verbatim>\<open>rg_matrix.c\<close> uses: the dirty flag, the multi-edge
  flag, the transpose-maintenance flag, the base matrix M, the overlays delta-plus and
  delta-minus, and the pointer to the transposed sibling (\<open>None\<close> is the null pointer).
  The mutex is left out. An \<^verbatim>\<open>RG_Matrix\<close> argument is a pointer, hence an
  \<open>RG_Matrix option\<close>.
\<close>

datatype RG_Matrix = RG_Matrix
  (dirty: bool)
  (multi_edge: bool)
  (maintain_transpose: bool)
  (matrix: GrB_Matrix)
  (delta_plus: GrB_Matrix)
  (delta_minus: GrB_Matrix)
  (transposed: "RG_Matrix option")

text \<open>
  Modelled from the spec: the accessor macros of \<^verbatim>\<open>rg_matrix.h\<close> for the three
  engine matrices of a delta matrix.
\<close>

abbreviation RG_MATRIX_MATRIX :: "RG_Matrix \<Rightarrow> GrB_Matrix" where
  "RG_MATRIX_MATRIX C \<equiv> matrix C"

abbreviation RG_MATRIX_DELTA_PLUS :: "RG_Matrix \<Rightarrow> GrB_Matrix" where
  "RG_MATRIX_DELTA_PLUS C \<equiv> delta_plus C"

abbreviation RG_MATRIX_DELTA_MINUS :: "RG_Matrix \<Rightarrow> GrB_Matrix" where
  "RG_MATRIX_DELTA_MINUS C \<equiv> delta_minus C"

text \<open>
  Modelled from the spec: the \<^verbatim>\<open>ASSERT\<close> macro (RG.h is not among the sources) aborts
  the operation when its condition is false (assert-and-abort).
\<close>

datatype error = Assertion_failed

definition ASSERT :: "bool \<Rightarrow> error + unit" where
  "ASSERT c = (if c then Inr () else Inl Assertion_failed)"

fun RG_Matrix_setDirty :: "RG_Matrix option \<Rightarrow> error + RG_Matrix" where
  "RG_Matrix_setDirty None = Inl Assertion_failed"
| "RG_Matrix_setDirty (Some (RG_Matrix d me mt m dp dm t)) = Inr (RG_Matrix True me mt m dp dm t)"

fun RG_Matrix_getTranspose :: "RG_Matrix option \<Rightarrow> error + RG_Matrix option" where
  "RG_Matrix_getTranspose None = Inl Assertion_failed"
| "RG_Matrix_getTranspose (Some C) = Inr (transposed C)"

fun RG_Matrix_getGrB_Matrix :: "RG_Matrix option \<Rightarrow> error + GrB_Matrix" where
  "RG_Matrix_getGrB_Matrix None = Inl Assertion_failed"
| "RG_Matrix_getGrB_Matrix (Some C) = Inr (RG_MATRIX_MATRIX C)"

fun RG_Matrix_getDeltaPlus :: "RG_Matrix option \<Rightarrow> error + GrB_Matrix" where
  "RG_Matrix_getDeltaPlus None = Inl Assertion_failed"
| "RG_Matrix_getDeltaPlus (Some C) = Inr (RG_MATRIX_DELTA_PLUS C)"

fun RG_Matrix_isDirty :: "RG_Matrix option \<Rightarrow> error + bool" where
  "RG_Matrix_isDirty None = Inl Assertion_failed"
| "RG_Matrix_isDirty (Some C) = Inr (dirty C)"

text \<open>
  \<^verbatim>\<open>RG_Matrix_setMultiEdge\<close> first calls itself on \<^verbatim>\<open>C->transposed\<close> when the
  matrix maintains a transpose, then writes the flag of \<^verbatim>\<open>C\<close>.
\<close>

fun RG_Matrix_setMultiEdge :: "RG_Matrix option \<Rightarrow> bool \<Rightarrow> error + RG_Matrix" where
  "RG_Matrix_setMultiEdge None multi_edge' = Inl Assertion_failed"
| "RG_Matrix_setMultiEdge (Some (RG_Matrix d me mt m dp dm t)) multi_edge' =
     (if mt then
        (case RG_Matrix_setMultiEdge t multi_edge' of
           Inl e \<Rightarrow> Inl e
         | Inr t' \<Rightarrow> Inr (RG_Matrix d multi_edge' mt m dp dm (Some t')))
      else Inr (RG_Matrix d multi_edge' mt m dp dm t))"

fun RG_Matrix_getMultiEdge :: "RG_Matrix option \<Rightarrow> error + bool" where
  "RG_Matrix_getMultiEdge None = Inl Assertion_failed"
| "RG_Matrix_getMultiEdge (Some C) = Inr (multi_edge C)"

text \<open>
  \<^verbatim>\<open>RG_Matrix_nvals\<close>: the first argument is the output pointer (\<open>None\<close> when null,
  otherwise the old content of the cell); the result is the returned status and the new
  content of the cell, \<^verbatim>\<open>m_nvals + dp_nvals - dm_nvals\<close> in \<^verbatim>\<open>GrB_Index\<close> arithmetic.
\<close>

definition RG_Matrix_nvals ::
  "GrB_Index option \<Rightarrow> RG_Matrix option \<Rightarrow> error + (GrB_Info \<times> GrB_Index)" where
  "RG_Matrix_nvals nvals A =
     (case A of None \<Rightarrow> Inl Assertion_failed | Some a \<Rightarrow>
      case nvals of None \<Rightarrow> Inl Assertion_failed | Some n0 \<Rightarrow>
      let m = RG_MATRIX_MATRIX a; dp = RG_MATRIX_DELTA_PLUS a; dm = RG_MATRIX_DELTA_MINUS a;
          (info1, m_nvals) = GrB_Matrix_nvals 0 m
      in if info1 \<noteq> GrB_SUCCESS then Inl Assertion_failed else
      let (info2, dp_nvals) = GrB_Matrix_nvals 0 dp
      in if info2 \<noteq> GrB_SUCCESS then Inl Assertion_failed else
      let (info3, dm_nvals) = GrB_Matrix_nvals 0 dm
      in if info3 \<noteq> GrB_SUCCESS then Inl Assertion_failed else
      Inr (info3, m_nvals + dp_nvals - dm_nvals))"

text \<open>
  \<^verbatim>\<open>RG_Matrix_resize\<close>: the transposed sibling is resized first, with the arguments
  in the order \<^verbatim>\<open>(nrows_new, ncols_new)\<close> in which they were received; then the base
  matrix and the two overlays. The first argument is the environment's answer to the
  engine's allocations; every engine status other than \<^verbatim>\<open>GrB_SUCCESS\<close> stops at the
  \<^verbatim>\<open>ASSERT\<close> that follows the call.
\<close>

fun RG_Matrix_resize ::
  "(GrB_Matrix \<Rightarrow> GrB_Index \<Rightarrow> GrB_Index \<Rightarrow> bool)
     \<Rightarrow> RG_Matrix option \<Rightarrow> GrB_Index \<Rightarrow> GrB_Index \<Rightarrow> error + (GrB_Info \<times> RG_Matrix)" where
  "RG_Matrix_resize alloc None nrows_new ncols_new = Inl Assertion_failed"
| "RG_Matrix_resize alloc (Some (RG_Matrix d me mt m dp dm t)) nrows_new ncols_new =
     (case (if mt then
              (case RG_Matrix_resize alloc t nrows_new ncols_new of
                 Inl e \<Rightarrow> Inl e
               | Inr (info, t') \<Rightarrow>
                   if info = GrB_SUCCESS then Inr (Some t') else Inl Assertion_failed)
            else Inr t) of
        Inl e \<Rightarrow> Inl e
      | Inr t1 \<Rightarrow>
          (case GrB_Matrix_resize alloc m nrows_new ncols_new of (info1, m') \<Rightarrow>
           if info1 \<noteq> GrB_SUCCESS then Inl Assertion_failed else
           case GrB_Matrix_resize alloc dp nrows_new ncols_new of (info2, dp') \<Rightarrow>
           if info2 \<noteq> GrB_SUCCESS then Inl Assertion_failed else
           case GrB_Matrix_resize alloc dm nrows_new ncols_new of (info3, dm') \<Rightarrow>
           if info3 \<noteq> GrB_SUCCESS then Inl Assertion_failed else
           Inr (info3, RG_Matrix d me mt m' dp' dm' t1)))"

text \<open>
  \<^verbatim>\<open>RG_Matrix_extractElement_BOOL\<close> and \<^verbatim>\<open>_UINT64\<close>: the first argument is the
  output pointer \<^verbatim>\<open>x\<close>; the result is the returned status and the content of \<^verbatim>\<open>*x\<close>
  on return. The delta-plus overlay is asked first; if it has no entry the delta-minus
  overlay is asked, and only when that lookup does not succeed the base matrix is asked.
  When the delta-minus lookup succeeds, its status is what the function returns.
\<close>

definition RG_Matrix_extractElement_BOOL ::
  "bool option \<Rightarrow> RG_Matrix option \<Rightarrow> GrB_Index \<Rightarrow> GrB_Index \<Rightarrow> error + (GrB_Info \<times> bool)" where
  "RG_Matrix_extractElement_BOOL x A i j =
     (case x of None \<Rightarrow> Inl Assertion_failed | Some x0 \<Rightarrow>
      case A of None \<Rightarrow> Inl Assertion_failed | Some a \<Rightarrow>
      let m = RG_MATRIX_MATRIX a; dp = RG_MATRIX_DELTA_PLUS a; dm = RG_MATRIX_DELTA_MINUS a;
          (info1, x1) = GrB_Matrix_extractElement_BOOL x0 dp i j
      in if info1 = GrB_SUCCESS then Inr (info1, x1) else
      let (info2, x2) = GrB_Matrix_extractElement_BOOL x1 dm i j
      in if info2 \<noteq> GrB_SUCCESS then Inr (GrB_Matrix_extractElement_BOOL x2 m i j)
         else Inr (info2, x2))"

definition RG_Matrix_extractElement_UINT64 ::
  "64 word option \<Rightarrow> RG_Matrix option \<Rightarrow> GrB_Index \<Rightarrow> GrB_Index \<Rightarrow> error + (GrB_Info \<times> 64 word)" where
  "RG_Matrix_extractElement_UINT64 x A i j =
     (case x of None \<Rightarrow> Inl Assertion_failed | Some x0 \<Rightarrow>
      case A of None \<Rightarrow> Inl Assertion_failed | Some a \<Rightarrow>
      let m = RG_MATRIX_MATRIX a; dp = RG_MATRIX_DELTA_PLUS a; dm = RG_MATRIX_DELTA_MINUS a;
          (info1, x1) = GrB_Matrix_extractElement_UINT64 x0 dp i j
      in if info1 = GrB_SUCCESS then Inr (info1, x1) else
      let (info2, x2) = GrB_Matrix_extractElement_UINT64 x1 dm i j
      in if info2 \<noteq> GrB_SUCCESS then Inr (GrB_Matrix_extractElement_UINT64 x2 m i j)
         else Inr (info2, x2))"

text \<open>
  \<^verbatim>\<open>RG_Matrix_subassign_UINT64\<close>. The engine's \<^verbatim>\<open>GxB_Matrix_subassign_UINT64\<close> is not
  among the sources and is a parameter \<open>gxb\<close> of the model: it maps the target matrix and
  the arguments to a status and the new target. The write after the recursive call (the
  engine call on delta-plus, then \<^verbatim>\<open>RG_Matrix_setDirty\<close> on success) is
  \<open>subassign_delta_plus\<close>.
\<close>

definition subassign_delta_plus ::
  "(GrB_Matrix \<Rightarrow> 'mask \<Rightarrow> 'op \<Rightarrow> 64 word \<Rightarrow> 'ix \<Rightarrow> GrB_Index \<Rightarrow> 'ix \<Rightarrow> GrB_Index \<Rightarrow> 'desc
      \<Rightarrow> GrB_Info \<times> GrB_Matrix)
   \<Rightarrow> RG_Matrix \<Rightarrow> 'mask \<Rightarrow> 'op \<Rightarrow> 64 word \<Rightarrow> 'ix \<Rightarrow> GrB_Index \<Rightarrow> 'ix \<Rightarrow> GrB_Index \<Rightarrow> 'desc
   \<Rightarrow> error + (GrB_Info \<times> RG_Matrix)" where
  "subassign_delta_plus gxb C Mask accum x I ni J nj desc =
     (case gxb (RG_MATRIX_DELTA_PLUS C) Mask accum x I ni J nj desc of (info, dp') \<Rightarrow>
      let C' = RG_Matrix (dirty C) (multi_edge C) (maintain_transpose C) (matrix C) dp'
                 (delta_minus C) (transposed C)
      in if info = GrB_SUCCESS
         then (case RG_Matrix_setDirty (Some C') of
                 Inl e \<Rightarrow> Inl e
               | Inr C'' \<Rightarrow> Inr (info, C''))
         else Inr (info, C'))"

fun RG_Matrix_subassign_UINT64 ::
  "(GrB_Matrix \<Rightarrow> 'mask \<Rightarrow> 'op \<Rightarrow> 64 word \<Rightarrow> 'ix \<Rightarrow> GrB_Index \<Rightarrow> 'ix \<Rightarrow> GrB_Index \<Rightarrow> 'desc
      \<Rightarrow> GrB_Info \<times> GrB_Matrix)
   \<Rightarrow> RG_Matrix option \<Rightarrow> 'mask \<Rightarrow> 'op \<Rightarrow> 64 word \<Rightarrow> 'ix \<Rightarrow> GrB_Index \<Rightarrow> 'ix \<Rightarrow> GrB_Index
   \<Rightarrow> 'desc \<Rightarrow> error + (GrB_Info \<times> RG_Matrix)" where
  "RG_Matrix_subassign_UINT64 gxb C Mask accum x I ni J nj desc =
     (case ASSERT False of
        Inl e \<Rightarrow> Inl e
      | Inr _ \<Rightarrow>
     (case C of
        None \<Rightarrow> Inl Assertion_failed
      | Some (RG_Matrix d me mt m dp dm t) \<Rightarrow>
          (case (if mt then
                   (case RG_Matrix_subassign_UINT64 gxb t Mask accum x J nj I ni desc of
                      Inl e \<Rightarrow> Inl e
                    | Inr (info, t') \<Rightarrow>
                        if info = GrB_SUCCESS then Inr (Some t') else Inl Assertion_failed)
                 else Inr t) of
             Inl e \<Rightarrow> Inl e
           | Inr t1 \<Rightarrow>
               subassign_delta_plus gxb (RG_Matrix d me mt m dp dm t1) Mask accum x I ni J nj desc)))"

text \<open>
  The link to the transposed sibling is sound when every matrix that maintains a
  transpose has one, down the chain (a sibling is created without a transpose of its own).
\<close>

fun links_ok :: "RG_Matrix \<Rightarrow> bool" where
  "links_ok (RG_Matrix d me mt m dp dm t) =
     (if mt then (case t of None \<Rightarrow> False | Some T \<Rightarrow> links_ok T) else True)"

text \<open>
  The logical content of a delta matrix as the specification words it: the delta-plus
  entry if there is one; otherwise absent if delta-minus marks the coordinate; otherwise
  the base entry.
\<close>

definition content :: "RG_Matrix \<Rightarrow> GrB_Index \<times> GrB_Index \<rightharpoonup> scalar" where
  "content A ij =
     (case entries (delta_plus A) ij of
        Some v \<Rightarrow> Some v
      | None \<Rightarrow> (case entries (delta_minus A) ij of
                   Some _ \<Rightarrow> None
                 | None \<Rightarrow> entries (matrix A) ij))"

text \<open>
  The data-model invariants of the specification, on the coordinates of the three engine
  matrices: delta-minus marks base coordinates only; delta-plus and delta-minus never
  hold the same coordinate; and a pending insert is at a coordinate the base does not
  hold (every coordinate is absent, present in the base, a pending insert or a pending
  delete).
\<close>

definition delta_invariant :: "RG_Matrix \<Rightarrow> bool" where
  "delta_invariant A \<longleftrightarrow>
     dom (entries (delta_minus A)) \<subseteq> dom (entries (matrix A))
     \<and> dom (entries (delta_plus A)) \<inter> dom (entries (delta_minus A)) = {}
     \<and> dom (entries (delta_plus A)) \<inter> dom (entries (matrix A)) = {}"

section \<open>Sample matrices and environments\<close>

text \<open>Engine matrices without entries, with one entry and with two entries.\<close>

definition no_entries :: "GrB_Index \<Rightarrow> GrB_Index \<Rightarrow> GrB_Matrix" where
  "no_entries r c = GrB_Matrix_of r c Map.empty"

definition single_entry ::
  "GrB_Index \<Rightarrow> GrB_Index \<Rightarrow> GrB_Index \<Rightarrow> GrB_Index \<Rightarrow> scalar \<Rightarrow> GrB_Matrix" where
  "single_entry r c i j v = GrB_Matrix_of r c [(i, j) \<mapsto> v]"

definition two_entries ::
  "GrB_Index \<Rightarrow> GrB_Index \<Rightarrow> GrB_Index \<times> GrB_Index \<Rightarrow> scalar
     \<Rightarrow> GrB_Index \<times> GrB_Index \<Rightarrow> scalar \<Rightarrow> GrB_Matrix" where
  "two_entries r c ij v ij' v' = GrB_Matrix_of r c [ij \<mapsto> v, ij' \<mapsto> v']"

text \<open>An engine matrix with one more entry, provided the engine can hold it.\<close>

definition set_entry :: "GrB_Matrix \<Rightarrow> GrB_Index \<times> GrB_Index \<Rightarrow> scalar \<Rightarrow> GrB_Matrix" where
  "set_entry A ij v =
     (if card (dom ((entries A)(ij \<mapsto> v))) < 2 ^ 63
      then GrB_Matrix_of (nrows A) (ncols A) ((entries A)(ij \<mapsto> v)) else A)"

text \<open>
  A 4 x 4 boolean delta matrix whose base entry at (1, 2) has been removed: the base matrix
  still holds it, delta-minus marks it, delta-plus is empty.
\<close>

definition removed_entry :: RG_Matrix where
  "removed_entry = RG_Matrix True False False
     (single_entry 4 4 1 2 (BOOL True)) (no_entries 4 4) (single_entry 4 4 1 2 (BOOL True)) None"

text \<open>A clean, empty delta matrix without a transpose, and one with an empty sibling.\<close>

definition plain :: "GrB_Index \<Rightarrow> GrB_Index \<Rightarrow> RG_Matrix" where
  "plain r c = RG_Matrix False False False (no_entries r c) (no_entries r c) (no_entries r c) None"

definition mirrored :: "GrB_Index \<Rightarrow> GrB_Index \<Rightarrow> GrB_Index \<Rightarrow> GrB_Index \<Rightarrow> RG_Matrix" where
  "mirrored r c r' c' =
     RG_Matrix False False True (no_entries r c) (no_entries r c) (no_entries r c)
       (Some (plain r' c'))"

text \<open>
  A 4 x 4 boolean delta matrix that maintains a transpose, after some edits: the base holds
  (0, 0) and (3, 3), the insert of (1, 2) is pending in delta-plus and the removal of
  (3, 3) is pending in delta-minus. Its sibling holds the transposed coordinates.
\<close>

definition edited_sibling :: RG_Matrix where
  "edited_sibling = RG_Matrix True False False
     (two_entries 4 4 (0, 0) (BOOL True) (3, 3) (BOOL True))
     (single_entry 4 4 2 1 (BOOL True)) (single_entry 4 4 3 3 (BOOL True)) None"

definition edited :: RG_Matrix where
  "edited = RG_Matrix True False True
     (two_entries 4 4 (0, 0) (BOOL True) (3, 3) (BOOL True))
     (single_entry 4 4 1 2 (BOOL True)) (single_entry 4 4 3 3 (BOOL True))
     (Some edited_sibling)"

text \<open>An environment in which every allocation of the engine succeeds.\<close>

definition enough_memory :: "GrB_Matrix \<Rightarrow> GrB_Index \<Rightarrow> GrB_Index \<Rightarrow> bool" where
  "enough_memory A r c = True"

text \<open>A sample engine assignment for \<open>gxb\<close>: it stores \<open>x\<close> at the single coordinate \<open>(I, J)\<close>.\<close>

definition gxb_single ::
  "GrB_Matrix \<Rightarrow> unit \<Rightarrow> unit \<Rightarrow> 64 word \<Rightarrow> GrB_Index \<Rightarrow> GrB_Index \<Rightarrow> GrB_Index \<Rightarrow> GrB_Index
     \<Rightarrow> unit \<Rightarrow> GrB_Info \<times> GrB_Matrix" where
  "gxb_single A Mask accum x I ni J nj desc = (GrB_SUCCESS, set_entry A (I, J) (UINT64 x))"

section \<open>Engine matrices\<close>

lemma count_less: "count A < 2 ^ 63"
  using Rep_GrB_Matrix [of A] by (auto simp: count_def entries_def split: prod.splits)

lemma GrB_Matrix_of_simps:
  assumes "card (dom m) < 2 ^ 63"
  shows "nrows (GrB_Matrix_of r c m) = r" and "ncols (GrB_Matrix_of r c m) = c"
    and "entries (GrB_Matrix_of r c m) = m"
  using assms
  by (simp_all add: nrows_def ncols_def entries_def GrB_Matrix_of_def Abs_GrB_Matrix_inverse)

lemma GrB_Matrix_eqI:
  "nrows A = nrows B \<Longrightarrow> ncols A = ncols B \<Longrightarrow> entries A = entries B \<Longrightarrow> A = B"
  by (simp add: nrows_def ncols_def entries_def Rep_GrB_Matrix_inject [symmetric] prod_eq_iff)

lemma card_dom_restrict:
  "card (dom (\<lambda>(i, j). if P i j then entries A (i, j) else None)) < 2 ^ 63"
proof -
  have "dom (\<lambda>(i, j). if P i j then entries A (i, j) else None) \<subseteq> dom (entries A)"
    by (auto split: if_splits)
  then have "card (dom (\<lambda>(i, j). if P i j then entries A (i, j) else None)) \<le> count A"
    by (simp add: count_def card_mono)
  with count_less [of A] show ?thesis by simp
qed

lemma resized_simps [simp]:
  "nrows (resized A r c) = r" "ncols (resized A r c) = c"
  "entries (resized A r c) (i, j) = (if i < r \<and> j < c then entries A (i, j) else None)"
proof -
  let ?m = "\<lambda>(i, j). if i < r \<and> j < c then entries A (i, j) else None"
  have b: "card (dom ?m) < 2 ^ 63"
    by (rule card_dom_restrict [of "\<lambda>i j. i < r \<and> j < c"])
  show "nrows (resized A r c) = r" "ncols (resized A r c) = c"
    "entries (resized A r c) (i, j) = (if i < r \<and> j < c then entries A (i, j) else None)"
    by (simp_all add: resized_def GrB_Matrix_of_simps [OF b])
qed

lemma no_entries_simps [simp]:
  "nrows (no_entries r c) = r" "ncols (no_entries r c) = c" "entries (no_entries r c) = Map.empty"
  by (simp_all add: no_entries_def GrB_Matrix_of_simps)

lemma single_entry_simps [simp]:
  "nrows (single_entry r c i j v) = r" "ncols (single_entry r c i j v) = c"
  "entries (single_entry r c i j v) = [(i, j) \<mapsto> v]"
  by (simp_all add: single_entry_def GrB_Matrix_of_simps)

lemma two_entries_simps [simp]:
  "nrows (two_entries r c ij v ij' v') = r" "ncols (two_entries r c ij v ij' v') = c"
  "entries (two_entries r c ij v ij' v') = [ij \<mapsto> v, ij' \<mapsto> v']"
  by (simp_all add: two_entries_def GrB_Matrix_of_simps card_insert_if)

lemma set_entry_no_entries: "set_entry (no_entries r c) (i, j) v = single_entry r c i j v"
  by (simp add: set_entry_def single_entry_def)

lemma resized_no_entries: "resized (no_entries r c) r' c' = no_entries r' c'"
  by (rule GrB_Matrix_eqI) (auto simp: fun_eq_iff)

lemma no_entries_nrows_neq: "r \<noteq> r' \<Longrightarrow> no_entries r c \<noteq> no_entries r' c'"
  by (metis no_entries_simps(1))

section \<open>Counting entries\<close>

lemma count_no_entries: "count (no_entries r c) = 0"
  by (simp add: count_def)

lemma count_single_entry: "count (single_entry r c i j v) = 1"
  by (simp add: count_def)

lemma count_two_entries: "ij \<noteq> ij' \<Longrightarrow> count (two_entries r c ij v ij' v') = 2"
  by (simp add: count_def)

text \<open>The engine delivers the number of entries exactly.\<close>

lemma unat_nvals: "unat (snd (GrB_Matrix_nvals n A)) = count A"
proof -
  have "count A < 2 ^ 64" using count_less [of A] by simp
  then show ?thesis by (simp add: GrB_Matrix_nvals_def unat_of_nat)
qed


lemma word_of_nat_exact:
  fixes m p q :: nat
  assumes "q \<le> m + p" and "m + p < 2 ^ 64"
  shows "unat (word_of_nat m + word_of_nat p - word_of_nat q :: 64 word) = m + p - q"
    and "unat (word_of_nat m + word_of_nat p :: 64 word) = m + p"
    and "(word_of_nat q :: 64 word) \<le> word_of_nat m + word_of_nat p"
proof -
  have small: "m + p - q < 2 ^ 64" "q < 2 ^ 64" using assms by simp_all
  have e: "(word_of_nat m + word_of_nat p - word_of_nat q :: 64 word) = word_of_nat (m + p - q)"
    using assms(1) by (simp add: of_nat_diff)
  have "unat (word_of_nat (m + p - q) :: 64 word) = m + p - q"
    using small(1) by (simp add: unat_of_nat)
  with e show "unat (word_of_nat m + word_of_nat p - word_of_nat q :: 64 word) = m + p - q"
    by simp
  have "unat (word_of_nat (m + p) :: 64 word) = m + p"
    using assms(2) by (simp only: unat_of_nat) simp
  then show u: "unat (word_of_nat m + word_of_nat p :: 64 word) = m + p"
    by (simp only: of_nat_add)
  have "unat (word_of_nat q :: 64 word) = q" using small(2) by (simp add: unat_of_nat)
  then show "(word_of_nat q :: 64 word) \<le> word_of_nat m + word_of_nat p"
    using u assms(1) by (simp add: word_le_nat_alt)
qed

text \<open>What \<^verbatim>\<open>RG_Matrix_nvals\<close> stores, as the code computes it.\<close>

lemma RG_Matrix_nvals_eq:
  "RG_Matrix_nvals (Some n0) (Some A) =
     Inr (GrB_SUCCESS,
          word_of_nat (count (matrix A)) + word_of_nat (count (delta_plus A))
            - word_of_nat (count (delta_minus A)))"
  by (simp add: RG_Matrix_nvals_def GrB_Matrix_nvals_def)

lemma count_sum_less:
  "count (matrix A) + count (delta_plus A) < 2 ^ 64"
  using count_less [of "matrix A"] count_less [of "delta_plus A"] by simp

lemma edited_counts:
  "count (matrix edited) = 2" "count (delta_plus edited) = 1" "count (delta_minus edited) = 1"
  by (simp_all add: edited_def count_two_entries count_single_entry)


lemma edited_content: "dom (content edited) = {(0, 0), (1, 2)}"
  by (auto simp: content_def edited_def dom_def split: option.splits if_splits)

section \<open>What each operation changes\<close>

lemma resize_plain:
  "RG_Matrix_resize enough_memory (Some (plain r c)) r' c' = Inr (GrB_SUCCESS, plain r' c')"
  by (simp add: plain_def GrB_Matrix_resize_def enough_memory_def resized_no_entries)

lemma resize_mirrored:
  "RG_Matrix_resize enough_memory (Some (mirrored r c r' c')) r'' c''
     = Inr (GrB_SUCCESS, mirrored r'' c'' r'' c'')"
  by (simp add: mirrored_def resize_plain GrB_Matrix_resize_def enough_memory_def
      resized_no_entries)

lemma resize_frame:
  assumes "RG_Matrix_resize alloc (Some C) r c = Inr (info, C')"
  shows "info = GrB_SUCCESS" and "dirty C' = dirty C" and "multi_edge C' = multi_edge C"
    and "maintain_transpose C' = maintain_transpose C"
    and "matrix C' = resized (matrix C) r c"
    and "delta_plus C' = resized (delta_plus C) r c"
    and "delta_minus C' = resized (delta_minus C) r c"
    and "matrix C' = snd (GrB_Matrix_resize alloc (matrix C) r c)"
    and "delta_plus C' = snd (GrB_Matrix_resize alloc (delta_plus C) r c)"
    and "delta_minus C' = snd (GrB_Matrix_resize alloc (delta_minus C) r c)"
  using assms
  by (cases C; auto simp: GrB_Matrix_resize_def split: sum.splits if_splits prod.splits)+

lemma resize_succeeds:
  assumes "\<And>A. alloc A r c"
  shows "links_ok C \<Longrightarrow> \<exists>C'. RG_Matrix_resize alloc (Some C) r c = Inr (GrB_SUCCESS, C')"
proof (induction C)
  case (RG_Matrix d me mt m dp dm t)
  show ?case
  proof (cases mt)
    case False
    then show ?thesis by (simp add: GrB_Matrix_resize_def assms)
  next
    case True
    with RG_Matrix.prems obtain T where t: "t = Some T" and "links_ok T"
      by (auto split: option.splits)
    with RG_Matrix.IH obtain T' where
      "RG_Matrix_resize alloc (Some T) r c = Inr (GrB_SUCCESS, T')"
      by auto
    with True t show ?thesis by (simp add: GrB_Matrix_resize_def assms)
  qed
qed

text \<open>The sibling of a resized matrix is resized by the same call, with the same arguments.\<close>

lemma resize_mirror:
  assumes "RG_Matrix_resize alloc (Some C) r c = Inr (info, C')" and "maintain_transpose C"
  shows "\<exists>T T'. transposed C = Some T \<and> transposed C' = Some T'
           \<and> RG_Matrix_resize alloc (Some T) r c = Inr (GrB_SUCCESS, T')"
proof (cases C)
  case (RG_Matrix d me mt m dp dm t)
  with assms obtain i T' where r: "RG_Matrix_resize alloc t r c = Inr (i, T')"
    and T': "transposed C' = Some T'" and i: "i = GrB_SUCCESS"
    by (auto simp: GrB_Matrix_resize_def split: sum.splits if_splits prod.splits)
  from r obtain T where "t = Some T" by (cases t) auto
  with r T' i RG_Matrix show ?thesis by simp
qed

lemma resize_mirror_dims:
  assumes "RG_Matrix_resize alloc (Some C) r c = Inr (info, C')" and "maintain_transpose C"
  shows "\<exists>T'. transposed C' = Some T' \<and> nrows (matrix T') = r \<and> ncols (matrix T') = c"
proof -
  from resize_mirror [OF assms] obtain T T' where T': "transposed C' = Some T'"
    and r: "RG_Matrix_resize alloc (Some T) r c = Inr (GrB_SUCCESS, T')"
    by blast
  from resize_frame(5) [OF r] T' show ?thesis by simp
qed

text \<open>When the engine cannot allocate, the resize stops at its assertion.\<close>

lemma resize_allocation_failure:
  assumes "\<not> maintain_transpose C" and "\<not> alloc (matrix C) r c"
  shows "RG_Matrix_resize alloc (Some C) r c = Inl Assertion_failed"
  using assms by (cases C) (simp add: GrB_Matrix_resize_def)

lemma setMultiEdge_frame:
  assumes "RG_Matrix_setMultiEdge (Some C) b = Inr C'"
  shows "multi_edge C' = b" and "dirty C' = dirty C"
    and "maintain_transpose C' = maintain_transpose C"
    and "matrix C' = matrix C" and "delta_plus C' = delta_plus C"
    and "delta_minus C' = delta_minus C"
  using assms by (cases C; auto split: sum.splits if_splits)+

lemma setMultiEdge_succeeds:
  "links_ok C \<Longrightarrow> \<exists>C'. RG_Matrix_setMultiEdge (Some C) b = Inr C'"
proof (induction C)
  case (RG_Matrix d me mt m dp dm t)
  show ?case
  proof (cases mt)
    case False
    then show ?thesis by simp
  next
    case True
    with RG_Matrix.prems obtain T where t: "t = Some T" and "links_ok T"
      by (auto split: option.splits)
    with RG_Matrix.IH obtain T' where "RG_Matrix_setMultiEdge (Some T) b = Inr T'"
      by auto
    with True t show ?thesis by simp
  qed
qed

lemma setDirty_frame:
  assumes "RG_Matrix_setDirty (Some C) = Inr C'"
  shows "dirty C'" and "matrix C' = matrix C" and "delta_plus C' = delta_plus C"
    and "delta_minus C' = delta_minus C" and "multi_edge C' = multi_edge C"
  using assms by (cases C; auto)+

lemma subassign_delta_plus_frame:
  assumes "subassign_delta_plus gxb C Mask accum x I ni J nj desc = Inr (info, C')"
  shows "matrix C' = matrix C" and "delta_minus C' = delta_minus C"
    and "delta_plus C' = snd (gxb (delta_plus C) Mask accum x I ni J nj desc)"
    and "info = fst (gxb (delta_plus C) Mask accum x I ni J nj desc)"
    and "dirty C' = (info = GrB_SUCCESS \<or> dirty C)"
  using assms by (auto simp: subassign_delta_plus_def Let_def split: prod.splits if_splits)

lemma subassign_single_plain:
  "subassign_delta_plus gxb_single (plain 4 4) () () 7 1 1 2 1 ()
     = Inr (GrB_SUCCESS, RG_Matrix True False False (no_entries 4 4)
              (single_entry 4 4 1 2 (UINT64 7)) (no_entries 4 4) None)"
  by (simp add: subassign_delta_plus_def gxb_single_def plain_def set_entry_no_entries)

text \<open>
  The operations of the file that change a delta matrix keep the data-model invariants:
  a resize drops the same coordinates from all three engine matrices, the two flag
  setters touch no engine matrix.
\<close>

lemma operations_keep_invariant:
  assumes "delta_invariant C"
  shows "RG_Matrix_resize alloc (Some C) r c = Inr (info, C1) \<Longrightarrow> delta_invariant C1"
    and "RG_Matrix_setDirty (Some C) = Inr C2 \<Longrightarrow> delta_invariant C2"
    and "RG_Matrix_setMultiEdge (Some C) b = Inr C3 \<Longrightarrow> delta_invariant C3"
proof -
  assume r: "RG_Matrix_resize alloc (Some C) r c = Inr (info, C1)"
  let ?R = "{(i, j). i < r \<and> j < c}"
  have d: "dom (entries (resized A r c)) = dom (entries A) \<inter> ?R" for A
    by (auto simp: dom_def split: if_splits)
  have m: "dom (entries (matrix C1)) = dom (entries (matrix C)) \<inter> ?R"
    and p: "dom (entries (delta_plus C1)) = dom (entries (delta_plus C)) \<inter> ?R"
    and q: "dom (entries (delta_minus C1)) = dom (entries (delta_minus C)) \<inter> ?R"
    by (simp_all only: resize_frame(5-7) [OF r] d)
  from assms have "dom (entries (delta_minus C)) \<subseteq> dom (entries (matrix C))"
    and "dom (entries (delta_plus C)) \<inter> dom (entries (delta_minus C)) = {}"
    and "dom (entries (delta_plus C)) \<inter> dom (entries (matrix C)) = {}"
    by (simp_all add: delta_invariant_def)
  then have "dom (entries (delta_minus C)) \<inter> ?R \<subseteq> dom (entries (matrix C)) \<inter> ?R"
    and "(dom (entries (delta_plus C)) \<inter> ?R) \<inter> (dom (entries (delta_minus C)) \<inter> ?R) = {}"
    and "(dom (entries (delta_plus C)) \<inter> ?R) \<inter> (dom (entries (matrix C)) \<inter> ?R) = {}"
    by blast+
  then show "delta_invariant C1"
    by (simp only: delta_invariant_def m p q) 
next
  assume "RG_Matrix_setDirty (Some C) = Inr C2"
  from setDirty_frame(2-4) [OF this] assms show "delta_invariant C2"
    by (simp add: delta_invariant_def)
next
  assume "RG_Matrix_setMultiEdge (Some C) b = Inr C3"
  from setMultiEdge_frame(4-6) [OF this] assms show "delta_invariant C3"
    by (simp add: delta_invariant_def)
qed

text \<open>
  Wherever delta-minus marks an in-range coordinate that delta-plus does not hold, the
  logical content has no entry there, while both extraction functions return
  \<^verbatim>\<open>GrB_SUCCESS\<close> and hand out the mark itself.
\<close>

lemma extractElement_delta_minus_hit:
  assumes "entries (delta_minus A) (i, j) = Some v" and "entries (delta_plus A) (i, j) = None"
      and "i < nrows (delta_minus A)" and "j < ncols (delta_minus A)"
  shows "content A (i, j) = None"
    and "RG_Matrix_extractElement_BOOL (Some x) (Some A) i j = Inr (GrB_SUCCESS, cast_BOOL v)"
    and "RG_Matrix_extractElement_UINT64 (Some y) (Some A) i j = Inr (GrB_SUCCESS, cast_UINT64 v)"
  using assms
  by (auto simp: content_def RG_Matrix_extractElement_BOOL_def
      RG_Matrix_extractElement_UINT64_def GrB_Matrix_extractElement_BOOL_def
      GrB_Matrix_extractElement_UINT64_def Let_def word_le_nat_alt word_less_nat_alt)

lemma resize_no_mirror:
  assumes "RG_Matrix_resize alloc (Some C) r c = Inr (info, C')" and "\<not> maintain_transpose C"
  shows "transposed C' = transposed C"
  using assms
  by (cases C) (auto simp: GrB_Matrix_resize_def split: sum.splits if_splits prod.splits)

section \<open>The claims\<close>

text \<open>
  C1. A coordinate that delta-minus marks and delta-plus does not hold should be reported
  absent by \<^verbatim>\<open>RG_Matrix_extractElement_BOOL\<close> and \<^verbatim>\<open>RG_Matrix_extractElement_UINT64\<close>.
  On the 4 x 4 matrix whose base entry (1, 2) has been removed the code does otherwise:
  the delta-minus lookup succeeds, and its status \<^verbatim>\<open>GrB_SUCCESS\<close> is returned together
  with the value of the mark (\<open>True\<close>, respectively 1).
\<close>

theorem extractElement_removed_entry:
  "RG_Matrix_extractElement_BOOL (Some False) (Some removed_entry) 1 2 = Inr (GrB_SUCCESS, True)
   \<and> RG_Matrix_extractElement_UINT64 (Some 0) (Some removed_entry) 1 2 = Inr (GrB_SUCCESS, 1)"
  by (simp add: RG_Matrix_extractElement_BOOL_def RG_Matrix_extractElement_UINT64_def
      GrB_Matrix_extractElement_BOOL_def GrB_Matrix_extractElement_UINT64_def
      removed_entry_def word_le_nat_alt)



text \<open>
  C3. Resizing a matrix that maintains a transpose should give the sibling the swapped
  dimensions. The code hands \<^verbatim>\<open>(nrows_new, ncols_new)\<close> to the sibling unswapped: a
  2 x 3 matrix with a 3 x 2 sibling, resized to 4 x 5, ends with a 4 x 5 sibling, not a
  5 x 4 one.
\<close>

theorem resize_mirror_not_swapped:
  "RG_Matrix_resize enough_memory (Some (mirrored 2 3 3 2)) 4 5
     = Inr (GrB_SUCCESS, mirrored 4 5 4 5)
   \<and> RG_Matrix_getTranspose (Some (mirrored 4 5 4 5)) = Inr (Some (plain 4 5))
   \<and> nrows (matrix (plain 4 5)) = 4 \<and> ncols (matrix (plain 4 5)) = 5"
  by (simp add: resize_mirrored) (simp add: mirrored_def plain_def)

text \<open>
  C4, as stated, fails: resizing a 4 x 4 matrix to 2 x 2 returns \<^verbatim>\<open>GrB_SUCCESS\<close> and
  the matrix is 2 x 2 afterwards.
\<close>

theorem resize_shrinks:
  "RG_Matrix_resize enough_memory (Some (plain 4 4)) 2 2 = Inr (GrB_SUCCESS, plain 2 2)
   \<and> plain 2 2 \<noteq> plain 4 4"
  by (simp add: resize_plain) (simp add: plain_def no_entries_nrows_neq)

text \<open>
  C4, amended. For every delta matrix with a sound sibling link and requested dimensions
  strictly smaller than the current ones, \<^verbatim>\<open>RG_Matrix_resize\<close> raises no dimension error
  and does not leave the matrix as it was: provided the engine's allocations succeed,
  it returns \<^verbatim>\<open>GrB_SUCCESS\<close>; the base matrix and both overlays are what the engine's
  resize makes of the old ones, so the matrix has the requested dimensions, the entries
  inside them stay and the entries outside them are dropped; the flags stay; and the
  sibling, where the matrix maintains one, is resized by the same call.
\<close>

theorem resize_shrink_forwarded:
  assumes "links_ok C"
      and "nrows_new < nrows (matrix C)" and "ncols_new < ncols (matrix C)"
      and "\<And>A. alloc A nrows_new ncols_new"
  shows "\<exists>C'. RG_Matrix_resize alloc (Some C) nrows_new ncols_new = Inr (GrB_SUCCESS, C')
           \<and> C' \<noteq> C
           \<and> matrix C' = snd (GrB_Matrix_resize alloc (matrix C) nrows_new ncols_new)
           \<and> delta_plus C' = snd (GrB_Matrix_resize alloc (delta_plus C) nrows_new ncols_new)
           \<and> delta_minus C' = snd (GrB_Matrix_resize alloc (delta_minus C) nrows_new ncols_new)
           \<and> nrows (matrix C') = nrows_new \<and> ncols (matrix C') = ncols_new
           \<and> (\<forall>i j. entries (matrix C') (i, j)
                       = (if i < nrows_new \<and> j < ncols_new then entries (matrix C) (i, j)
                          else None))
           \<and> dirty C' = dirty C \<and> multi_edge C' = multi_edge C
           \<and> maintain_transpose C' = maintain_transpose C
           \<and> (if maintain_transpose C
               then \<exists>T T'. transposed C = Some T \<and> transposed C' = Some T'
                      \<and> RG_Matrix_resize alloc (Some T) nrows_new ncols_new
                          = Inr (GrB_SUCCESS, T')
               else transposed C' = transposed C)"
proof -
  from resize_succeeds [of alloc nrows_new ncols_new C] assms(1,4) obtain C' where
    C': "RG_Matrix_resize alloc (Some C) nrows_new ncols_new = Inr (GrB_SUCCESS, C')"
    by blast
  note f = resize_frame [OF C']
  have dims: "nrows (matrix C') = nrows_new" "ncols (matrix C') = ncols_new"
    by (simp_all add: f(5))
  have ent: "\<forall>i j. entries (matrix C') (i, j)
                       = (if i < nrows_new \<and> j < ncols_new then entries (matrix C) (i, j)
                          else None)"
    by (simp add: f(5))
  from dims(1) assms(2) have "nrows (matrix C') \<noteq> nrows (matrix C)" by simp
  then have ne: "C' \<noteq> C" by auto
  have sib: "if maintain_transpose C
               then \<exists>T T'. transposed C = Some T \<and> transposed C' = Some T'
                      \<and> RG_Matrix_resize alloc (Some T) nrows_new ncols_new
                          = Inr (GrB_SUCCESS, T')
               else transposed C' = transposed C"
    using resize_mirror [OF C'] resize_no_mirror [OF C'] by simp
  from C' ne f(8,9,10) dims ent f(2,3,4) sib show ?thesis by blast
qed

text \<open>
  C4, amended, at the edited 4 x 4 matrix shrunk to 2 x 2: the base matrix keeps (0, 0)
  and loses (3, 3), the pending insert at (1, 2) is dropped, and the sibling is 2 x 2 too.
\<close>

theorem resize_shrink_forwarded_witness:
  "links_ok edited \<and> 2 < nrows (matrix edited) \<and> 2 < ncols (matrix edited)
   \<and> (\<exists>C' T'. RG_Matrix_resize enough_memory (Some edited) 2 2 = Inr (GrB_SUCCESS, C')
         \<and> C' \<noteq> edited
         \<and> nrows (matrix C') = 2 \<and> ncols (matrix C') = 2
         \<and> entries (matrix C') (0, 0) = Some (BOOL True)
         \<and> entries (matrix C') (3, 3) = None
         \<and> entries (delta_plus C') (1, 2) = None
         \<and> transposed C' = Some T'
         \<and> nrows (matrix T') = 2 \<and> ncols (matrix T') = 2
         \<and> entries (matrix T') (0, 0) = Some (BOOL True))"
proof -
  have ok: "links_ok edited" by (simp add: edited_def edited_sibling_def)
  have d: "2 < nrows (matrix edited)" "2 < ncols (matrix edited)"
    by (simp_all add: edited_def)
  have a: "\<And>A. enough_memory A 2 2" by (simp add: enough_memory_def)
  have mt: "maintain_transpose edited" "transposed edited = Some edited_sibling"
    by (simp_all add: edited_def)
  from resize_shrink_forwarded [of edited 2 2 enough_memory, OF ok d a] mt obtain C' T' where
    C': "RG_Matrix_resize enough_memory (Some edited) 2 2 = Inr (GrB_SUCCESS, C')"
    and ne: "C' \<noteq> edited"
    and dims: "nrows (matrix C') = 2" "ncols (matrix C') = 2"
    and ent: "\<forall>i j. entries (matrix C') (i, j)
                = (if i < 2 \<and> j < 2 then entries (matrix edited) (i, j) else None)"
    and dp: "delta_plus C' = snd (GrB_Matrix_resize enough_memory (delta_plus edited) 2 2)"
    and T': "transposed C' = Some T'"
    and rT: "RG_Matrix_resize enough_memory (Some edited_sibling) 2 2 = Inr (GrB_SUCCESS, T')"
    by auto
  have lt: "(0::64 word) < 2" "\<not> (3::64 word) < 2" "\<not> (2::64 word) < 2"
    by (simp_all add: word_less_nat_alt)
  from ent lt have e0: "entries (matrix C') (0, 0) = entries (matrix edited) (0, 0)"
    and e3: "entries (matrix C') (3, 3) = None"
    by simp_all
  have "entries (matrix edited) (0, 0) = Some (BOOL True)" by (simp add: edited_def)
  with e0 have e0': "entries (matrix C') (0, 0) = Some (BOOL True)" by simp
  from dp lt have p: "entries (delta_plus C') (1, 2) = None"
    by (simp add: GrB_Matrix_resize_def enough_memory_def)
  from resize_frame(5) [OF rT] lt
  have s: "nrows (matrix T') = 2" "ncols (matrix T') = 2"
    "entries (matrix T') (0, 0) = Some (BOOL True)"
    by (simp_all add: edited_sibling_def)
  from ok d C' ne dims e0' e3 p T' s show ?thesis by blast
qed

text \<open>
  C5, as stated, fails: a clean 4 x 4 matrix resized to 5 x 5 is still reported clean by
  \<^verbatim>\<open>RG_Matrix_isDirty\<close>.
\<close>

theorem resize_leaves_clean:
  "RG_Matrix_isDirty (Some (plain 4 4)) = Inr False
   \<and> RG_Matrix_resize enough_memory (Some (plain 4 4)) 5 5 = Inr (GrB_SUCCESS, plain 5 5)
   \<and> RG_Matrix_isDirty (Some (plain 5 5)) = Inr False"
  by (simp add: resize_plain) (simp add: plain_def)

text \<open>
  C5, amended. \<^verbatim>\<open>RG_Matrix_isDirty\<close> returns the dirty flag; \<^verbatim>\<open>RG_Matrix_setDirty\<close>
  sets it; \<^verbatim>\<open>RG_Matrix_resize\<close> and \<^verbatim>\<open>RG_Matrix_setMultiEdge\<close> leave it as it was
  (they neither set nor clear it); the delta-plus write of the bulk assignment sets it
  when the engine succeeds and leaves it as it was otherwise. No operation clears it.
\<close>

theorem dirty_transitions:
  "RG_Matrix_isDirty (Some C) = Inr (dirty C)
   \<and> (\<exists>C'. RG_Matrix_setDirty (Some C) = Inr C' \<and> RG_Matrix_isDirty (Some C') = Inr True)
   \<and> (RG_Matrix_resize alloc (Some C) r c = Inr (info, C1) \<longrightarrow> dirty C1 = dirty C)
   \<and> (RG_Matrix_setMultiEdge (Some C) b = Inr C2 \<longrightarrow> dirty C2 = dirty C)
   \<and> (subassign_delta_plus gxb C Mask accum x I ni J nj desc = Inr (info', C3) \<longrightarrow>
        dirty C3 = (info' = GrB_SUCCESS \<or> dirty C))"
proof -
  have "\<exists>C'. RG_Matrix_setDirty (Some C) = Inr C' \<and> RG_Matrix_isDirty (Some C') = Inr True"
    by (cases C) simp
  then show ?thesis
    using resize_frame(2) setMultiEdge_frame(2) subassign_delta_plus_frame(5) by fastforce
qed

text \<open>
  C5, amended, at the clean 4 x 4 matrix: resized to 5 x 5, switched to multi-edge, and
  written at (1, 2) by the sample engine.
\<close>

theorem dirty_transitions_witness:
  "RG_Matrix_resize enough_memory (Some (plain 4 4)) 5 5 = Inr (GrB_SUCCESS, plain 5 5)
   \<and> dirty (plain 5 5) = dirty (plain 4 4)
   \<and> RG_Matrix_setMultiEdge (Some (plain 4 4)) True
       = Inr (RG_Matrix False True False (no_entries 4 4) (no_entries 4 4) (no_entries 4 4) None)
   \<and> dirty (RG_Matrix False True False (no_entries 4 4) (no_entries 4 4) (no_entries 4 4) None)
       = dirty (plain 4 4)
   \<and> subassign_delta_plus gxb_single (plain 4 4) () () 7 1 1 2 1 ()
       = Inr (GrB_SUCCESS, RG_Matrix True False False (no_entries 4 4)
                (single_entry 4 4 1 2 (UINT64 7)) (no_entries 4 4) None)
   \<and> dirty (RG_Matrix True False False (no_entries 4 4)
                (single_entry 4 4 1 2 (UINT64 7)) (no_entries 4 4) None)"
  using dirty_transitions[where C = "plain 4 4" and alloc = enough_memory and r = 5 and c = 5
      and info = GrB_SUCCESS
      and ?C1.0 = "plain 5 5" and b = True
      and ?C2.0 = "RG_Matrix False True False (no_entries 4 4) (no_entries 4 4) (no_entries 4 4) None"
      and gxb = gxb_single and Mask = "()" and accum = "()" and x = 7 and I = 1 and ni = 1
      and J = 2 and nj = 1 and desc = "()" and info' = GrB_SUCCESS
      and ?C3.0 = "RG_Matrix True False False (no_entries 4 4)
                (single_entry 4 4 1 2 (UINT64 7)) (no_entries 4 4) None"]
  by (simp add: resize_plain subassign_single_plain) (simp add: plain_def)

text \<open>
  C6, as stated, fails: on a matrix that does not maintain a transpose,
  \<^verbatim>\<open>RG_Matrix_getTranspose\<close> returns normally, and what it returns is the null pointer.
\<close>

theorem getTranspose_null:
  "maintain_transpose (plain 4 4) = False
   \<and> RG_Matrix_getTranspose (Some (plain 4 4)) = Inr None"
  by (simp add: plain_def)

text \<open>
  C6, amended. \<^verbatim>\<open>RG_Matrix_getTranspose\<close> returns the sibling pointer of the matrix
  whatever the transpose flag says: the linked sibling where there is one, the null
  pointer, as an ordinary result and without any error, where there is none.
\<close>

theorem getTranspose_field:
  "RG_Matrix_getTranspose (Some C) = Inr (transposed C)
   \<and> RG_Matrix_getTranspose (Some (RG_Matrix d me True m dp dm (Some T))) = Inr (Some T)
   \<and> RG_Matrix_getTranspose (Some (RG_Matrix d me False m dp dm None)) = Inr None"
  by simp

text \<open>
  C7, as stated, fails: \<^verbatim>\<open>RG_Matrix_resize\<close> is not the synchronisation, and the base
  matrix of a 4 x 4 delta matrix resized to 5 x 5 is no longer the one it was.
\<close>

theorem resize_changes_base:
  "RG_Matrix_resize enough_memory (Some (plain 4 4)) 5 5 = Inr (GrB_SUCCESS, plain 5 5)
   \<and> matrix (plain 5 5) \<noteq> matrix (plain 4 4)"
  by (simp add: resize_plain) (simp add: plain_def no_entries_nrows_neq)

text \<open>
  C7, amended. \<^verbatim>\<open>RG_Matrix_setDirty\<close>, \<^verbatim>\<open>RG_Matrix_setMultiEdge\<close> and the write of
  the bulk assignment leave the base matrix as it is (the bulk assignment writes to
  delta-plus and leaves delta-minus alone too). \<^verbatim>\<open>RG_Matrix_resize\<close> does change the
  base matrix: it gives it the requested dimensions, and every entry inside them stays
  as it was.
\<close>

theorem base_matrix_frame:
  "(RG_Matrix_setDirty (Some C) = Inr C1 \<longrightarrow> matrix C1 = matrix C)
   \<and> (RG_Matrix_setMultiEdge (Some C) b = Inr C2 \<longrightarrow> matrix C2 = matrix C)
   \<and> (subassign_delta_plus gxb C Mask accum x I ni J nj desc = Inr (info, C3) \<longrightarrow>
        matrix C3 = matrix C \<and> delta_minus C3 = delta_minus C)
   \<and> (RG_Matrix_resize alloc (Some C) r c = Inr (info', C4) \<longrightarrow>
        nrows (matrix C4) = r \<and> ncols (matrix C4) = c
        \<and> (\<forall>i j. i < r \<and> j < c \<longrightarrow> entries (matrix C4) (i, j) = entries (matrix C) (i, j)))"
  using setDirty_frame(2) setMultiEdge_frame(4) subassign_delta_plus_frame(1,2) resize_frame(5)
  by fastforce

text \<open>
  C7, amended, at the matrix with the removed entry (1, 2): marked dirty, switched to
  multi-edge and resized to 5 x 5, and at the clean 4 x 4 matrix written at (1, 2) by the
  sample engine.
\<close>

theorem base_matrix_frame_witness:
  "RG_Matrix_setDirty (Some removed_entry) = Inr removed_entry
   \<and> RG_Matrix_setMultiEdge (Some (plain 4 4)) True
       = Inr (RG_Matrix False True False (no_entries 4 4) (no_entries 4 4) (no_entries 4 4) None)
   \<and> matrix (RG_Matrix False True False (no_entries 4 4) (no_entries 4 4) (no_entries 4 4) None)
       = matrix (plain 4 4)
   \<and> subassign_delta_plus gxb_single (plain 4 4) () () 7 1 1 2 1 ()
       = Inr (GrB_SUCCESS, RG_Matrix True False False (no_entries 4 4)
                (single_entry 4 4 1 2 (UINT64 7)) (no_entries 4 4) None)
   \<and> matrix (RG_Matrix True False False (no_entries 4 4)
                (single_entry 4 4 1 2 (UINT64 7)) (no_entries 4 4) None) = matrix (plain 4 4)
   \<and> (\<exists>C4. RG_Matrix_resize enough_memory (Some removed_entry) 5 5 = Inr (GrB_SUCCESS, C4)
         \<and> nrows (matrix C4) = 5 \<and> ncols (matrix C4) = 5
         \<and> entries (matrix C4) (1, 2) = entries (matrix removed_entry) (1, 2))"
proof -
  let ?C2 = "RG_Matrix False True False (no_entries 4 4) (no_entries 4 4) (no_entries 4 4) None"
  let ?C3 = "RG_Matrix True False False (no_entries 4 4)
                (single_entry 4 4 1 2 (UINT64 7)) (no_entries 4 4) None"
  have ok: "links_ok removed_entry" by (simp add: removed_entry_def)
  have a: "\<And>A. enough_memory A 5 5" by (simp add: enough_memory_def)
  obtain C4 where
    C4: "RG_Matrix_resize enough_memory (Some removed_entry) 5 5 = Inr (GrB_SUCCESS, C4)"
    using resize_succeeds [of enough_memory 5 5 removed_entry, OF a ok] by blast
  have lt: "(1::64 word) < 5 \<and> (2::64 word) < 5" by (simp add: word_less_nat_alt)
  have d: "RG_Matrix_setDirty (Some removed_entry) = Inr removed_entry"
    by (simp add: removed_entry_def)
  have e: "RG_Matrix_setMultiEdge (Some (plain 4 4)) True = Inr ?C2"
    by (simp add: plain_def)
  note s = subassign_single_plain
  note f = base_matrix_frame[where C = removed_entry and alloc = enough_memory
        and ?C1.0 = removed_entry and r = 5
        and c = 5 and info' = GrB_SUCCESS and ?C4.0 = C4 and b = True and ?C2.0 = ?C2
        and gxb = gxb_single and Mask = "()" and accum = "()" and x = 7 and I = 1 and ni = 1
        and J = 2 and nj = 1 and desc = "()" and info = GrB_SUCCESS and ?C3.0 = ?C3]
  from f C4 have r: "nrows (matrix C4) = 5" "ncols (matrix C4) = 5"
    "\<forall>i j. i < 5 \<and> j < 5 \<longrightarrow> entries (matrix C4) (i, j) = entries (matrix removed_entry) (i, j)"
    by blast+
  from r(3) lt have r3: "entries (matrix C4) (1, 2) = entries (matrix removed_entry) (1, 2)"
    by blast
  note g = base_matrix_frame[where C = "plain 4 4" and alloc = enough_memory
        and ?C1.0 = removed_entry and r = 5
        and c = 5 and info' = GrB_SUCCESS and ?C4.0 = C4 and b = True and ?C2.0 = ?C2
        and gxb = gxb_single and Mask = "()" and accum = "()" and x = 7 and I = 1 and ni = 1
        and J = 2 and nj = 1 and desc = "()" and info = GrB_SUCCESS and ?C3.0 = ?C3]
  from g e s have m: "matrix ?C2 = matrix (plain 4 4)" "matrix ?C3 = matrix (plain 4 4)"
    by blast+
  from d e s m C4 r(1,2) r3 show ?thesis by blast
qed

text \<open>
  C9. For every delta matrix that maintains a transpose (with a sound sibling link) and
  every boolean \<open>b\<close>, \<^verbatim>\<open>RG_Matrix_setMultiEdge\<close> returns, and afterwards
  \<^verbatim>\<open>RG_Matrix_getMultiEdge\<close> gives \<open>b\<close> on the matrix and on its sibling.
\<close>

theorem setMultiEdge_mirror:
  assumes "maintain_transpose C" and "links_ok C"
  shows "\<exists>C' T'. RG_Matrix_setMultiEdge (Some C) b = Inr C'
           \<and> RG_Matrix_getTranspose (Some C') = Inr (Some T')
           \<and> RG_Matrix_getMultiEdge (Some C') = Inr b
           \<and> RG_Matrix_getMultiEdge (Some T') = Inr b"
proof (cases C)
  case (RG_Matrix d me mt m dp dm t)
  with assms obtain T where t: "t = Some T" and mt: "mt" and "links_ok T"
    by (auto split: option.splits if_splits)
  then obtain T' where T': "RG_Matrix_setMultiEdge (Some T) b = Inr T'"
    using setMultiEdge_succeeds by blast
  then have "multi_edge T' = b" by (rule setMultiEdge_frame(1))
  with T' t mt RG_Matrix show ?thesis by simp
qed

text \<open>C9 at a 4 x 4 matrix with a 4 x 4 sibling, both flags off before the call.\<close>

theorem setMultiEdge_mirror_witness:
  "\<exists>C' T'. RG_Matrix_setMultiEdge (Some (mirrored 4 4 4 4)) True = Inr C'
           \<and> RG_Matrix_getTranspose (Some C') = Inr (Some T')
           \<and> RG_Matrix_getMultiEdge (Some C') = Inr True
           \<and> RG_Matrix_getMultiEdge (Some T') = Inr True"
  using setMultiEdge_mirror[of "mirrored 4 4 4 4" True] by (simp add: mirrored_def plain_def)

text \<open>
  C10. \<^verbatim>\<open>RG_Matrix_nvals\<close> computes \<open>count M + count DP - count DM\<close> in
  \<^verbatim>\<open>GrB_Index\<close> arithmetic. Whenever \<open>count DM \<le> count M + count DP\<close>, the
  addition of the two counts the engine delivers does not wrap, the subtraction does not
  wrap either (the delta-minus count is at most the sum), and the value stored is the
  exact difference.
\<close>

theorem nvals_exact:
  assumes "count (delta_minus A) \<le> count (matrix A) + count (delta_plus A)"
  shows "\<exists>n. RG_Matrix_nvals (Some n0) (Some A) = Inr (GrB_SUCCESS, n)
           \<and> unat n = count (matrix A) + count (delta_plus A) - count (delta_minus A)
           \<and> unat (snd (GrB_Matrix_nvals 0 (matrix A)) + snd (GrB_Matrix_nvals 0 (delta_plus A)))
               = count (matrix A) + count (delta_plus A)
           \<and> snd (GrB_Matrix_nvals 0 (delta_minus A))
               \<le> snd (GrB_Matrix_nvals 0 (matrix A)) + snd (GrB_Matrix_nvals 0 (delta_plus A))"
  using word_of_nat_exact [OF assms count_sum_less]
  by (simp add: RG_Matrix_nvals_def GrB_Matrix_nvals_def)

text \<open>
  C10 at the edited 4 x 4 matrix: two base entries, one pending insert and one pending
  delete; the value stored is 2.
\<close>

theorem nvals_exact_witness:
  "count (delta_minus edited) \<le> count (matrix edited) + count (delta_plus edited)
   \<and> RG_Matrix_nvals (Some 0) (Some edited) = Inr (GrB_SUCCESS, 2)
   \<and> count (matrix edited) + count (delta_plus edited) - count (delta_minus edited) = 2"
proof -
  have le: "count (delta_minus edited) \<le> count (matrix edited) + count (delta_plus edited)"
    by (simp add: edited_counts)
  from nvals_exact [OF le, of 0] obtain n where
    n: "RG_Matrix_nvals (Some 0) (Some edited) = Inr (GrB_SUCCESS, n)"
    and u: "unat n = count (matrix edited) + count (delta_plus edited)
                       - count (delta_minus edited)"
    by blast
  have "RG_Matrix_nvals (Some 0) (Some edited) = Inr (GrB_SUCCESS, 2)"
    by (simp add: RG_Matrix_nvals_eq edited_counts)
  with n have "n = 2" by simp
  with u have "count (matrix edited) + count (delta_plus edited) - count (delta_minus edited) = 2"
    by simp
  with n \<open>n = 2\<close> le show ?thesis by simp
qed

text \<open>
  C8. Every call of \<^verbatim>\<open>RG_Matrix_subassign_UINT64\<close>, whatever its arguments, stops at the
  unconditional \<^verbatim>\<open>ASSERT(false)\<close>: the result is the assertion failure, no matrix is
  returned and nothing has been assigned.
\<close>

theorem subassign_always_asserts:
  "RG_Matrix_subassign_UINT64 gxb C Mask accum x I ni J nj desc = Inl Assertion_failed"
  by (simp add: ASSERT_def)

end
